theory Spec2Isabelle
  imports Complex_Main "HOL-Library.Word"
begin

section \<open>express-mini: a two-channel analog expression controller\<close>

text \<open>
  A shallow embedding of \<^verbatim>\<open>express-mini.ino\<close>. The sketch holds three objects: the
  \<^verbatim>\<open>Device\<close> (samplers, cached steps, timers, indicators, configuration), and the two
  packet dispatchers \<^verbatim>\<open>MIDI\<close> and \<^verbatim>\<open>Link\<close>. Member variables become record
  fields, member functions become functions from state to state, and every call into
  the hardware or into a library that is not part of the sketch (the clock, the ADC, the
  transports) is an explicit argument or an explicit log of the calls made.

  \<^verbatim>\<open>uint8_t\<close> and \<^verbatim>\<open>int8_t\<close> are \<open>8 word\<close> (read with \<open>unat\<close>/\<open>uint\<close> or
  \<open>sint\<close>), \<^verbatim>\<open>unsigned long\<close> on the SAMD target is \<open>32 word\<close>. A \<^verbatim>\<open>float\<close> is
  modelled by the real number it denotes; rounding is not modelled.
\<close>

subsection \<open>Constants of the sketch\<close>

text \<open>\<^verbatim>\<open>constexpr static uint8_t n_potis = 2;\<close>\<close>

definition n_potis :: nat where
  "n_potis = 2"

text \<open>
  \<^verbatim>\<open>_config { .n_steps{128}, .min{0.05}, .max{0.7}, .alpha{0.3}, .lag{0.007} }\<close>, the
  configuration handed to both samplers.
\<close>

record potentiometer_config =
  n_steps :: nat
  cfg_min :: real
  cfg_max :: real
  alpha :: real
  lag :: real

definition config_V2Potentiometer :: potentiometer_config where
  "config_V2Potentiometer =
     \<lparr>n_steps = 128, cfg_min = 5 / 100, cfg_max = 7 / 10, alpha = 3 / 10, lag = 7 / 1000\<rparr>"

text \<open>
  The names of the MIDI library that the sketch uses but does not define:
  \<^verbatim>\<open>V2MIDI::C(3)\<close>, \<^verbatim>\<open>V2MIDI::CC::GeneralPurpose1\<close>, \<^verbatim>\<open>V2MIDI::CC::AllSoundOff\<close> and
  \<^verbatim>\<open>V2MIDI::CC::AllNotesOff\<close>. Their values are parameters of the model.
\<close>

record V2MIDI =
  C3 :: "8 word"
  GeneralPurpose1 :: "8 word"
  AllSoundOff :: "8 word"
  AllNotesOff :: "8 word"

subsection \<open>Packets\<close>

text \<open>
  Modelled from the spec: the class \<^verbatim>\<open>V2MIDI::Packet\<close> is not part of the sketch. A
  packet carries a port (the address of the device in the chain, a byte) and one MIDI
  message with byte-sized fields. The sketch reads and writes the port with
  \<^verbatim>\<open>getPort\<close>/\<^verbatim>\<open>setPort\<close> and builds control changes with
  \<^verbatim>\<open>setControlChange(channel, controller, value)\<close>, which replaces the message and
  leaves the port.
\<close>

datatype midi_message =
    Empty
  | NoteOn "8 word" "8 word" "8 word"
  | NoteOff "8 word" "8 word" "8 word"
  | ControlChange "8 word" "8 word" "8 word"
  | SystemReset

record packet =
  port :: "8 word"
  msg :: midi_message

text \<open>The value-initialised packet \<^verbatim>\<open>V2MIDI::Packet{}\<close>.\<close>

definition empty_packet :: packet where
  "empty_packet = \<lparr>port = 0, msg = Empty\<rparr>"

definition getPort :: "packet \<Rightarrow> 8 word" where
  "getPort p = port p"

definition setPort :: "8 word \<Rightarrow> packet \<Rightarrow> packet" where
  "setPort a p = p\<lparr>port := a\<rparr>"

definition setControlChange :: "8 word \<Rightarrow> 8 word \<Rightarrow> 8 word \<Rightarrow> packet \<Rightarrow> packet" where
  "setControlChange channel controller val p = p\<lparr>msg := ControlChange channel controller val\<rparr>"

text \<open>The controller number of a control change, \<open>None\<close> for every other message.\<close>

definition cc_controller :: "packet \<Rightarrow> 8 word option" where
  "cc_controller p = (case msg p of ControlChange ch c v \<Rightarrow> Some c | _ \<Rightarrow> None)"

subsection \<open>The channel sampler\<close>

text \<open>
  Modelled from the spec: the class \<^verbatim>\<open>V2Potentiometer\<close> is not part of the sketch. A
  sampler exposes its current quantized step (an integer) and its current fractional
  value, and \<^verbatim>\<open>reset()\<close> clears the filter state and the quantized step to the minimum
  value. The smoothing done by \<^verbatim>\<open>measure()\<close> is a black box and is passed to the model
  as a function.
\<close>

record potentiometer =
  p_step :: nat
  p_fraction :: real

definition getStep :: "potentiometer \<Rightarrow> nat" where
  "getStep p = p_step p"

definition getFraction :: "potentiometer \<Rightarrow> real" where
  "getFraction p = p_fraction p"

definition reset_poti :: "potentiometer \<Rightarrow> potentiometer" where
  "reset_poti p = \<lparr>p_step = 0, p_fraction = 0\<rparr>"

subsection \<open>The indicators\<close>

text \<open>
  Modelled from the spec: the driver \<^verbatim>\<open>V2LED::WS2812\<close> is not part of the sketch. One
  pixel per channel; the model keeps what the sketch last asked for. \<^verbatim>\<open>setHSV\<close> sets
  hue, saturation and brightness of a pixel, \<^verbatim>\<open>setBrightness\<close> only its brightness,
  \<^verbatim>\<open>reset\<close> turns every pixel off.
\<close>

record pixel =
  hue :: real
  saturation :: real
  brightness :: real

definition pixel_off :: pixel where
  "pixel_off = \<lparr>hue = 0, saturation = 0, brightness = 0\<rparr>"


definition LED_setBrightness :: "nat \<Rightarrow> real \<Rightarrow> pixel list \<Rightarrow> pixel list" where
  "LED_setBrightness i v leds = leds[i := (leds ! i)\<lparr>brightness := v\<rparr>]"

definition LED_reset :: "pixel list \<Rightarrow> pixel list" where
  "LED_reset leds = map (\<lambda>_. pixel_off) leds"




subsection \<open>The device\<close>

text \<open>
  The members of \<^verbatim>\<open>class Device\<close>, the two indicator outputs it drives
  (\<^verbatim>\<open>PIN_LED_ONBOARD\<close> and the pixel strip \<^verbatim>\<open>LED\<close>), and \<open>sent\<close>, the packets handed
  to \<^verbatim>\<open>send()\<close> in the order of the calls.
\<close>

record device =
  config_channel :: "8 word"
  potis :: "potentiometer list"
  steps :: "8 word list"
  measure_usec :: "32 word"
  events_usec :: "32 word"
  midi :: packet
  led_onboard :: bool
  led :: "pixel list"
  sent :: "packet list"

text \<open>The three arrays have \<^verbatim>\<open>n_potis\<close> elements.\<close>

definition wf_device :: "device \<Rightarrow> bool" where
  "wf_device st \<longleftrightarrow>
     length (potis st) = n_potis \<and> length (steps st) = n_potis \<and> length (led st) = n_potis"

text \<open>
  Modelled from the spec: \<^verbatim>\<open>V2Device::send\<close> is not part of the sketch. It takes one
  outgoing packet; the model appends it to the log.
\<close>

definition send :: "packet \<Rightarrow> device \<Rightarrow> device" where
  "send p st = st\<lparr>sent := sent st @ [p]\<rparr>"


text \<open>
  \<^verbatim>\<open>handleReset()\<close>; \<open>now\<close> is the value \<^verbatim>\<open>micros()\<close> returns.
\<close>

definition handleReset :: "32 word \<Rightarrow> device \<Rightarrow> device" where
  "handleReset now st =
     (let st1 = st\<lparr>led_onboard := False\<rparr>;
          st2 = st1\<lparr>led := LED_reset (led st1)\<rparr>;
          st3 = fold (\<lambda>i s. s\<lparr>potis := (potis s)[i := reset_poti (potis s ! i)]\<rparr>) [0..<n_potis] st2;
          st4 = st3\<lparr>steps := replicate n_potis 0\<rparr>;
          st5 = st4\<lparr>measure_usec := 0\<rparr>;
          st6 = st5\<lparr>events_usec := now\<rparr>
      in st6\<lparr>midi := empty_packet\<rparr>)"

text \<open>
  One round of the loop in \<^verbatim>\<open>sendEvents(bool force)\<close>, for channel \<open>i\<close>. The cached
  step is a \<^verbatim>\<open>uint8_t\<close>; the comparison with the sampler's step is made on the promoted
  integers, and the step is converted to a byte where it is stored or sent.
\<close>

definition sendEvents_channel :: "V2MIDI \<Rightarrow> bool \<Rightarrow> nat \<Rightarrow> device \<Rightarrow> device" where
  "sendEvents_channel K force i st =
     (if \<not> force \<and> unat (steps st ! i) = getStep (potis st ! i) then st
      else
        let st1 = st\<lparr>led := LED_setBrightness i (getFraction (potis st ! i)) (led st)\<rparr>;
            st2 = st1\<lparr>midi := setControlChange (config_channel st1)
                      (GeneralPurpose1 K + of_nat i) (of_nat (getStep (potis st1 ! i))) (midi st1)\<rparr>;
            st3 = send (midi st2) st2
        in st3\<lparr>steps := (steps st3)[i := of_nat (getStep (potis st3 ! i))]\<rparr>)"

definition sendEvents :: "V2MIDI \<Rightarrow> bool \<Rightarrow> device \<Rightarrow> device" where
  "sendEvents K force st = fold (sendEvents_channel K force) [0..<n_potis] st"

definition allNotesOff :: "V2MIDI \<Rightarrow> device \<Rightarrow> device" where
  "allNotesOff K st = sendEvents K True st"

text \<open>
  \<^verbatim>\<open>handleLoop()\<close>. The environment gives the readings of the clock and of the ADC:
  \<open>micros env k\<close> is what the \<open>k\<close>-th call of \<^verbatim>\<open>micros()\<close> made by this invocation
  returns (counted from 0), \<open>analogRead env i\<close> is the reading of pin
  \<^verbatim>\<open>PIN_CHANNEL_SENSE + i\<close>. \<open>measure_poti\<close> is the sampler's \<^verbatim>\<open>measure()\<close>.
\<close>

record environment =
  micros :: "nat \<Rightarrow> 32 word"
  analogRead :: "nat \<Rightarrow> int"

definition measure_channel ::
  "(real \<Rightarrow> potentiometer \<Rightarrow> potentiometer) \<Rightarrow> environment \<Rightarrow> nat \<Rightarrow> device \<Rightarrow> device" where
  "measure_channel measure_poti env i st =
     st\<lparr>potis := (potis st)[i := measure_poti (real_of_int (analogRead env i) / 1023) (potis st ! i)]\<rparr>"

definition handleLoop ::
  "V2MIDI \<Rightarrow> (real \<Rightarrow> potentiometer \<Rightarrow> potentiometer) \<Rightarrow> environment \<Rightarrow> device \<Rightarrow> device" where
  "handleLoop K measure_poti env st =
     (let (k1, st1) =
            (if 10 * 1000 < micros env 0 - measure_usec st then
               let s = fold (measure_channel measure_poti env) [0..<n_potis] st
               in (2, s\<lparr>measure_usec := micros env 1\<rparr>)
             else (1, st))
      in
        if 50 * 1000 < micros env k1 - events_usec st1 then
          let s = sendEvents K False st1
          in s\<lparr>events_usec := micros env (k1 + 1)\<rparr>
        else st1)"



definition handleControlChange ::
  "V2MIDI \<Rightarrow> 8 word \<Rightarrow> 8 word \<Rightarrow> 8 word \<Rightarrow> device \<Rightarrow> device" where
  "handleControlChange K channel controller val st =
     (if controller = AllSoundOff K \<or> controller = AllNotesOff K then allNotesOff K st
      else st)"

subsection \<open>The configuration record\<close>

text \<open>
  \<^verbatim>\<open>importConfiguration(JsonObject json)\<close> reads \<^verbatim>\<open>json["midi"]["channel"]\<close> into a
  \<^verbatim>\<open>uint8_t\<close>. The JSON document is modelled by what the sketch reads from it: the
  object \<^verbatim>\<open>midi\<close> may be missing, its member \<^verbatim>\<open>channel\<close> may be null, and otherwise it
  is the byte that the assignment to \<^verbatim>\<open>uint8_t channel\<close> yields.
\<close>

record json_midi_in =
  in_channel :: "8 word option"

record json_in =
  in_midi :: "json_midi_in option"

definition importConfiguration :: "json_in \<Rightarrow> device \<Rightarrow> device" where
  "importConfiguration json st =
     (case in_midi json of
        None \<Rightarrow> st
      | Some json_midi \<Rightarrow>
          (case in_channel json_midi of
             None \<Rightarrow> st
           | Some channel \<Rightarrow>
               if channel < 1 then st\<lparr>config_channel := 0\<rparr>
               else if channel > 16 then st\<lparr>config_channel := 15\<rparr>
               else st\<lparr>config_channel := channel - 1\<rparr>))"

text \<open>
  The document an import sees when the external record carries the number \<open>c\<close> as its
  channel: the assignment to \<^verbatim>\<open>uint8_t channel\<close> converts the number to a byte, modulo
  256.
\<close>

definition external_channel :: "int \<Rightarrow> json_in" where
  "external_channel c = \<lparr>in_midi = Some \<lparr>in_channel = Some (word_of_int c)\<rparr>\<rparr>"

text \<open>
  \<^verbatim>\<open>exportConfiguration(JsonObject json)\<close> writes two comments, the number
  \<^verbatim>\<open>config.channel + 1\<close> (an \<^verbatim>\<open>int\<close>) and the nested object \<^verbatim>\<open>configuration\<close>.
\<close>

record json_out =
  out_midi_comment :: string
  out_channel_comment :: string
  out_channel :: int
  out_configuration_path :: string
  out_configuration_field :: string

definition exportConfiguration :: "device \<Rightarrow> json_out" where
  "exportConfiguration st =
     \<lparr>out_midi_comment = ''The MIDI settings'',
      out_channel_comment = ''The channel to send notes and control values to'',
      out_channel = uint (config_channel st) + 1,
      out_configuration_path = ''midi'',
      out_configuration_field = ''channel''\<rparr>"

text \<open>
  The document an import sees when it is given an exported one: the number read
  back as a \<^verbatim>\<open>uint8_t\<close>.
\<close>

definition read_exported :: "json_out \<Rightarrow> json_in" where
  "read_exported j = \<lparr>in_midi = Some \<lparr>in_channel = Some (word_of_int (out_channel j))\<rparr>\<rparr>"

subsection \<open>The packet dispatchers\<close>

text \<open>
  The state of \<^verbatim>\<open>class MIDI\<close> and \<^verbatim>\<open>class Link\<close>: their packet buffers, and the calls
  they make, in order: \<open>dispatched\<close> for \<^verbatim>\<open>Device.dispatch(transport, packet)\<close>,
  \<open>socket_out\<close> for \<^verbatim>\<open>Socket.send\<close> (towards the children), \<open>usb_out\<close> for
  \<^verbatim>\<open>Device.usb.midi.send\<close> (towards the host) and \<open>plug_out\<close> for \<^verbatim>\<open>Plug.send\<close>
  (towards the parent).
\<close>

datatype transport = USB | Plug | Socket

record router =
  midi_buf :: packet
  link_buf :: packet
  dispatched :: "(transport \<times> packet) list"
  socket_out :: "packet list"
  usb_out :: "packet list"
  plug_out :: "packet list"

text \<open>
  \<^verbatim>\<open>MIDI::loop()\<close>. \<open>incoming\<close> is what \<^verbatim>\<open>Device.usb.midi.receive(&_midi)\<close> delivers:
  \<open>None\<close> when it returns false, \<open>Some p\<close> when it returns true with \<open>p\<close> stored in the
  buffer.
\<close>

definition MIDI_loop :: "packet option \<Rightarrow> router \<Rightarrow> router" where
  "MIDI_loop incoming r =
     (case incoming of
        None \<Rightarrow> r
      | Some p \<Rightarrow>
          let r1 = r\<lparr>midi_buf := p\<rparr> in
          if getPort (midi_buf r1) = 0 then
            r1\<lparr>dispatched := dispatched r1 @ [(USB, midi_buf r1)]\<rparr>
          else
            let r2 = r1\<lparr>midi_buf := setPort (getPort (midi_buf r1) - 1) (midi_buf r1)\<rparr>
            in r2\<lparr>socket_out := socket_out r2 @ [midi_buf r2]\<rparr>)"

text \<open>
  Modelled from the spec: the class \<^verbatim>\<open>V2Link::Packet\<close> is not part of the sketch. A
  link packet has a type tag, an address byte, and the MIDI packet that \<^verbatim>\<open>receive()\<close>
  unpacks from it.
\<close>

datatype link_type = MIDI | Other

record link_packet =
  l_type :: link_type
  l_address :: "8 word"
  l_midi :: packet

definition receivePlug :: "link_packet \<Rightarrow> router \<Rightarrow> router" where
  "receivePlug pkt r =
     (if l_type pkt = MIDI then
        let r1 = r\<lparr>link_buf := l_midi pkt\<rparr>
        in r1\<lparr>dispatched := dispatched r1 @ [(Plug, link_buf r1)]\<rparr>
      else r)"

text \<open>
  \<^verbatim>\<open>Link::receiveSocket()\<close>; \<open>usb_connected\<close> is what \<^verbatim>\<open>Device.usb.midi.connected()\<close>
  returns.
\<close>

definition receiveSocket :: "bool \<Rightarrow> link_packet \<Rightarrow> router \<Rightarrow> router" where
  "receiveSocket usb_connected pkt r =
     (if l_type pkt = MIDI then
        let address = l_address pkt in
        if address = 0x0f then r
        else if usb_connected then
          let r1 = r\<lparr>link_buf := l_midi pkt\<rparr>;
              r2 = r1\<lparr>link_buf := setPort (address + 1) (link_buf r1)\<rparr>
          in r2\<lparr>usb_out := usb_out r2 @ [link_buf r2]\<rparr>
        else r
      else r)"

subsection \<open>Example values\<close>

text \<open>
  The usual values of the MIDI names (middle C is note 60; the controllers are 16, 120
  and 123), and the device as its constructor leaves it.
\<close>

definition standard_V2MIDI :: V2MIDI where
  "standard_V2MIDI = \<lparr>C3 = 60, GeneralPurpose1 = 16, AllSoundOff = 120, AllNotesOff = 123\<rparr>"

definition initial_device :: device where
  "initial_device =
     \<lparr>config_channel = 0,
      potis = [\<lparr>p_step = 0, p_fraction = 0\<rparr>, \<lparr>p_step = 0, p_fraction = 0\<rparr>],
      steps = [0, 0],
      measure_usec = 0,
      events_usec = 0,
      midi = empty_packet,
      led_onboard = False,
      led = [pixel_off, pixel_off],
      sent = []\<rparr>"

text \<open>
  A device in use: channel 0 has moved since its last message (cached step 10, sampler
  at step 64), channel 1 has not (both 9). And the dispatchers before any packet.
\<close>

definition busy_device :: device where
  "busy_device =
     \<lparr>config_channel = 3,
      potis = [\<lparr>p_step = 64, p_fraction = 1 / 2\<rparr>, \<lparr>p_step = 9, p_fraction = 1 / 4\<rparr>],
      steps = [10, 9],
      measure_usec = 1000,
      events_usec = 2000,
      midi = empty_packet,
      led_onboard = True,
      led = [\<lparr>hue = 120, saturation = 1, brightness = 1 / 2\<rparr>, pixel_off],
      sent = []\<rparr>"

definition initial_router :: router where
  "initial_router =
     \<lparr>midi_buf = empty_packet, link_buf = empty_packet, dispatched = [],
      socket_out = [], usb_out = [], plug_out = []\<rparr>"

text \<open>
  Environments for one turn of the loop: a clock that reads \<open>t\<close> at every call with
  both inputs at full scale, and a clock that starts at 60000 and advances by one
  microsecond per call. \<open>follow\<close> is a sampler without smoothing or quantization: it
  takes the reading as its fraction and keeps its step.
\<close>

definition clock_at :: "32 word \<Rightarrow> environment" where
  "clock_at t = \<lparr>micros = (\<lambda>k. t), analogRead = (\<lambda>i. 1023)\<rparr>"

definition running_clock :: environment where
  "running_clock = \<lparr>micros = (\<lambda>k. 60000 + of_nat k), analogRead = (\<lambda>i. if i = 0 then 1023 else 0)\<rparr>"

definition follow :: "real \<Rightarrow> potentiometer \<Rightarrow> potentiometer" where
  "follow f p = p\<lparr>p_fraction := f\<rparr>"

section \<open>Properties\<close>

subsection \<open>Arithmetic on bytes, timers and arrays of two\<close>

lemma unat_pred_word8: "a \<noteq> 0 \<Longrightarrow> unat (a - 1) + 1 = unat (a :: 8 word)"
  by (simp add: unat_minus_one unat_gt_0 Suc_leI le_add_diff_inverse2)

lemma unat_succ_word8: "a \<noteq> 255 \<Longrightarrow> unat (a + 1) = unat (a :: 8 word) + 1"
proof -
  assume "a \<noteq> 255"
  then have "unat a \<noteq> 255"
    by (simp add: word_unat_eq_iff)
  moreover have "unat a < 256"
    using unsigned_less [of a, where ?'a = nat] by simp
  ultimately show ?thesis
    by (simp add: unat_word_ariths)
qed

lemma word8_succ_neq [simp]: "(a :: 8 word) + 1 \<noteq> a" "a \<noteq> a + 1"
  by simp_all

lemma upt_n_potis: "[0..<n_potis] = [0, 1]"
  by (simp add: n_potis_def upt_rec)

lemma list_two: "length xs = n_potis \<Longrightarrow> xs = [xs ! 0, xs ! 1]"
  by (cases xs; cases "tl xs"; auto simp: n_potis_def)

lemma unat_step_byte:
  "n < n_steps config_V2Potentiometer \<Longrightarrow> unat (of_nat n :: 8 word) = n"
  by (simp add: config_V2Potentiometer_def unat_of_nat)






text \<open>
  The two comparisons of \<^verbatim>\<open>handleLoop\<close>, made on \<^verbatim>\<open>unsigned long\<close>.
\<close>

lemma due_word32:
  "(10 * 1000 < (w :: 32 word)) = (10000 < unat w)"
  "(50 * 1000 < (w :: 32 word)) = (50000 < unat w)"
  by (simp_all add: word_less_nat_alt)

subsection \<open>Configuration import and export\<close>


text \<open>An exported document is read the way an external value is.\<close>

lemma read_exported_external: "read_exported j = external_channel (out_channel j)"
  by (simp add: read_exported_def external_channel_def)





text \<open>
  C9. For a stored channel \<open>k \<le> 15\<close>, the export writes the number \<open>k + 1\<close>, and
  importing what was exported stores \<open>k\<close> again, whatever the importing device held.
\<close>

theorem export_import_roundtrip:
  assumes "config_channel st = k" and "k \<le> 15"
  shows "out_channel (exportConfiguration st) = uint k + 1 \<and>
         config_channel (importConfiguration (read_exported (exportConfiguration st)) st') = k"
proof -
  have out: "out_channel (exportConfiguration st) = uint k + 1"
    using assms(1) by (simp add: exportConfiguration_def)
  have w: "(word_of_int (uint k + 1) :: 8 word) = k + 1"
    by simp
  have n: "unat k \<le> 15"
    using assms(2) by (simp add: word_le_nat_alt)
  have u: "unat (k + 1) = unat k + 1"
    using n by (simp add: unat_word_ariths)
  have lo: "\<not> k + 1 < 1"
    using u by (simp add: word_less_nat_alt)
  have hi: "\<not> 16 < k + 1"
    using u n by (simp add: word_less_nat_alt)
  show ?thesis
    using out w lo hi
    by (simp add: read_exported_def importConfiguration_def)
qed

theorem export_import_roundtrip_witness:
  "out_channel (exportConfiguration (initial_device\<lparr>config_channel := 9\<rparr>)) = 10 \<and>
   config_channel (importConfiguration
     (read_exported (exportConfiguration (initial_device\<lparr>config_channel := 9\<rparr>))) initial_device) = 9"
  using export_import_roundtrip [of "initial_device\<lparr>config_channel := 9\<rparr>" 9 initial_device]
  by simp

subsection \<open>Routing\<close>

text \<open>
  C2. A packet received from the host with port 0 is handed to \<^verbatim>\<open>Device.dispatch\<close>
  once and nothing goes to the socket; a packet with another port is not dispatched and
  goes to the socket with its port one lower. Neither goes to the host or the plug.
\<close>

theorem MIDI_loop_routes:
  "let r' = MIDI_loop (Some p) r in
     (getPort p = 0 \<longrightarrow>
        dispatched r' = dispatched r @ [(USB, p)] \<and> socket_out r' = socket_out r) \<and>
     (getPort p \<noteq> 0 \<longrightarrow>
        dispatched r' = dispatched r \<and>
        socket_out r' = socket_out r @ [setPort (getPort p - 1) p] \<and>
        unat (getPort p - 1) + 1 = unat (getPort p)) \<and>
     usb_out r' = usb_out r \<and> plug_out r' = plug_out r"
  using unat_pred_word8 [of "getPort p"]
  by (simp add: MIDI_loop_def Let_def)

theorem MIDI_loop_routes_witness:
  "dispatched (MIDI_loop (Some \<lparr>port = 0, msg = NoteOn 0 60 64\<rparr>) initial_router) =
     [(USB, \<lparr>port = 0, msg = NoteOn 0 60 64\<rparr>)] \<and>
   socket_out (MIDI_loop (Some \<lparr>port = 0, msg = NoteOn 0 60 64\<rparr>) initial_router) = [] \<and>
   dispatched (MIDI_loop (Some \<lparr>port = 3, msg = NoteOn 0 60 64\<rparr>) initial_router) = [] \<and>
   socket_out (MIDI_loop (Some \<lparr>port = 3, msg = NoteOn 0 60 64\<rparr>) initial_router) =
     [\<lparr>port = 2, msg = NoteOn 0 60 64\<rparr>]"
  using MIDI_loop_routes [of "\<lparr>port = 0, msg = NoteOn 0 60 64\<rparr>" initial_router]
        MIDI_loop_routes [of "\<lparr>port = 3, msg = NoteOn 0 60 64\<rparr>" initial_router]
  by (simp add: Let_def getPort_def setPort_def initial_router_def)

text \<open>
  C3. A MIDI packet from the socket with address \<open>0x0f\<close> changes nothing. With any
  other address it is sent to the host with port \<open>address + 1\<close> when the host is
  connected (and nothing else is sent or dispatched), and changes nothing when the host
  is not connected. The sum does not wrap for an address other than \<open>0xff\<close>.
\<close>

theorem receiveSocket_routes:
  assumes "l_type pkt = MIDI"
  shows "let r' = receiveSocket usb_connected pkt r in
     (l_address pkt = 0x0f \<longrightarrow> r' = r) \<and>
     (l_address pkt \<noteq> 0x0f \<and> usb_connected \<longrightarrow>
        usb_out r' = usb_out r @ [setPort (l_address pkt + 1) (l_midi pkt)] \<and>
        (l_address pkt \<noteq> 0xff \<longrightarrow> unat (l_address pkt + 1) = unat (l_address pkt) + 1) \<and>
        plug_out r' = plug_out r \<and> socket_out r' = socket_out r \<and>
        dispatched r' = dispatched r) \<and>
     (l_address pkt \<noteq> 0x0f \<and> \<not> usb_connected \<longrightarrow> r' = r)"
  using assms unat_succ_word8 [of "l_address pkt"]
  by (simp add: receiveSocket_def Let_def)

theorem receiveSocket_routes_witness:
  "receiveSocket True \<lparr>l_type = MIDI, l_address = 0x0f, l_midi = \<lparr>port = 0, msg = NoteOn 0 60 64\<rparr>\<rparr>
     initial_router = initial_router \<and>
   usb_out (receiveSocket True \<lparr>l_type = MIDI, l_address = 2, l_midi = \<lparr>port = 0, msg = NoteOn 0 60 64\<rparr>\<rparr>
     initial_router) = [\<lparr>port = 3, msg = NoteOn 0 60 64\<rparr>] \<and>
   receiveSocket False \<lparr>l_type = MIDI, l_address = 2, l_midi = \<lparr>port = 0, msg = NoteOn 0 60 64\<rparr>\<rparr>
     initial_router = initial_router"
  using receiveSocket_routes [of "\<lparr>l_type = MIDI, l_address = 0x0f, l_midi = \<lparr>port = 0, msg = NoteOn 0 60 64\<rparr>\<rparr>" True initial_router]
        receiveSocket_routes [of "\<lparr>l_type = MIDI, l_address = 2, l_midi = \<lparr>port = 0, msg = NoteOn 0 60 64\<rparr>\<rparr>" True initial_router]
        receiveSocket_routes [of "\<lparr>l_type = MIDI, l_address = 2, l_midi = \<lparr>port = 0, msg = NoteOn 0 60 64\<rparr>\<rparr>" False initial_router]
  by (simp add: Let_def setPort_def initial_router_def)

subsection \<open>The emission pass\<close>

lemma sendEvents_unfold:
  "sendEvents K force st = sendEvents_channel K force 1 (sendEvents_channel K force 0 st)"
  by (simp add: sendEvents_def upt_n_potis)

lemma sendEvents_channel_frame [simp]:
  "potis (sendEvents_channel K force i st) = potis st"
  "config_channel (sendEvents_channel K force i st) = config_channel st"
  "measure_usec (sendEvents_channel K force i st) = measure_usec st"
  "events_usec (sendEvents_channel K force i st) = events_usec st"
  "led_onboard (sendEvents_channel K force i st) = led_onboard st"
  "length (steps (sendEvents_channel K force i st)) = length (steps st)"
  "length (led (sendEvents_channel K force i st)) = length (led st)"
  "port (midi (sendEvents_channel K force i st)) = port (midi st)"
  by (simp_all add: sendEvents_channel_def Let_def send_def LED_setBrightness_def setControlChange_def)

lemma sendEvents_channel_other:
  "j \<noteq> i \<Longrightarrow> steps (sendEvents_channel K force i st) ! j = steps st ! j"
  "j \<noteq> i \<Longrightarrow> led (sendEvents_channel K force i st) ! j = led st ! j"
  by (simp_all add: sendEvents_channel_def Let_def send_def LED_setBrightness_def)

lemma setControlChange_twice [simp]:
  "setControlChange a b c (setControlChange a' b' c' p) = setControlChange a b c p"
  by (simp add: setControlChange_def)

lemma cc_controller_setControlChange [simp]:
  "cc_controller (setControlChange a b c p) = Some b"
  by (simp add: cc_controller_def setControlChange_def)

lemma sent_sendEvents_channel:
  "sent (sendEvents_channel K force i st) =
     sent st @ (if force \<or> unat (steps st ! i) \<noteq> getStep (potis st ! i)
                then [setControlChange (config_channel st) (GeneralPurpose1 K + of_nat i)
                        (of_nat (getStep (potis st ! i))) (midi st)]
                else [])"
  by (simp add: sendEvents_channel_def Let_def send_def)

lemma midi_sendEvents_channel:
  "midi (sendEvents_channel K force i st) =
     (if force \<or> unat (steps st ! i) \<noteq> getStep (potis st ! i)
      then setControlChange (config_channel st) (GeneralPurpose1 K + of_nat i)
             (of_nat (getStep (potis st ! i))) (midi st)
      else midi st)"
  by (simp add: sendEvents_channel_def Let_def send_def)

lemma steps_sendEvents_channel:
  "steps (sendEvents_channel K force i st) =
     (if force \<or> unat (steps st ! i) \<noteq> getStep (potis st ! i)
      then (steps st)[i := of_nat (getStep (potis st ! i))]
      else steps st)"
  by (simp add: sendEvents_channel_def Let_def send_def)

lemma led_sendEvents_channel:
  "led (sendEvents_channel K force i st) =
     (if force \<or> unat (steps st ! i) \<noteq> getStep (potis st ! i)
      then LED_setBrightness i (getFraction (potis st ! i)) (led st)
      else led st)"
  by (simp add: sendEvents_channel_def Let_def send_def)

text \<open>
  What one pass sends, for either value of the flag.
\<close>

lemma sent_sendEvents:
  "sent (sendEvents K force st) =
     sent st @
     concat (map (\<lambda>i. if force \<or> unat (steps st ! i) \<noteq> getStep (potis st ! i)
                      then [setControlChange (config_channel st) (GeneralPurpose1 K + of_nat i)
                              (of_nat (getStep (potis st ! i))) (midi st)]
                      else []) [0..<n_potis])"
proof -
  let ?s0 = "sendEvents_channel K force 0 st"
  have s1: "steps ?s0 ! Suc 0 = steps st ! Suc 0"
    by (simp add: sendEvents_channel_other)
  have m: "setControlChange a b c (midi ?s0) = setControlChange a b c (midi st)" for a b c
    by (simp add: midi_sendEvents_channel)
  have "sent (sendEvents K force st) = sent (sendEvents_channel K force (Suc 0) ?s0)"
    by (simp add: sendEvents_unfold)
  also have "\<dots> = sent ?s0 @
      (if force \<or> unat (steps st ! Suc 0) \<noteq> getStep (potis st ! Suc 0)
       then [setControlChange (config_channel st) (GeneralPurpose1 K + 1)
               (of_nat (getStep (potis st ! Suc 0))) (midi st)]
       else [])"
    by (simp add: sent_sendEvents_channel [of K force "Suc 0" ?s0] s1 m)
  finally show ?thesis
    by (simp add: sent_sendEvents_channel [of K force 0 st] upt_n_potis)
qed

lemma steps_sendEvents:
  assumes "wf_device st" and "i < n_potis"
  shows "steps (sendEvents K force st) ! i =
     (if force \<or> unat (steps st ! i) \<noteq> getStep (potis st ! i)
      then of_nat (getStep (potis st ! i)) else steps st ! i)"
proof -
  let ?s0 = "sendEvents_channel K force 0 st"
  have len: "length (steps st) = 2"
    using assms(1) by (simp add: wf_device_def n_potis_def)
  from assms(2) have "i = 0 \<or> i = Suc 0"
    by (auto simp: n_potis_def)
  then show ?thesis
  proof
    assume "i = 0"
    then show ?thesis
      using len by (simp add: sendEvents_unfold sendEvents_channel_other steps_sendEvents_channel [of K force 0 st])
  next
    assume "i = Suc 0"
    then show ?thesis
      using len by (simp add: sendEvents_unfold sendEvents_channel_other
          steps_sendEvents_channel [of K force "Suc 0" ?s0])
  qed
qed

lemma led_sendEvents:
  assumes "wf_device st" and "i < n_potis"
  shows "led (sendEvents K force st) ! i =
     (if force \<or> unat (steps st ! i) \<noteq> getStep (potis st ! i)
      then (led st ! i)\<lparr>brightness := getFraction (potis st ! i)\<rparr> else led st ! i)"
proof -
  let ?s0 = "sendEvents_channel K force 0 st"
  have len: "length (led st) = 2"
    using assms(1) by (simp add: wf_device_def n_potis_def)
  from assms(2) have "i = 0 \<or> i = Suc 0"
    by (auto simp: n_potis_def)
  then show ?thesis
  proof
    assume "i = 0"
    then show ?thesis
      using len by (simp add: sendEvents_unfold sendEvents_channel_other
          led_sendEvents_channel [of K force 0 st] LED_setBrightness_def)
  next
    assume "i = Suc 0"
    then show ?thesis
      using len by (simp add: sendEvents_unfold sendEvents_channel_other
          led_sendEvents_channel [of K force "Suc 0" ?s0] LED_setBrightness_def)
  qed
qed

lemma sendEvents_frame [simp]:
  "potis (sendEvents K force st) = potis st"
  "config_channel (sendEvents K force st) = config_channel st"
  "measure_usec (sendEvents K force st) = measure_usec st"
  "events_usec (sendEvents K force st) = events_usec st"
  "led_onboard (sendEvents K force st) = led_onboard st"
  by (simp_all add: sendEvents_unfold)

text \<open>
  C1. One pass with the flag unset, for a channel \<open>i < n_potis\<close> whose sampler is
  within its \<open>n_steps\<close>. The packets of the pass that carry controller
  \<open>GeneralPurpose1 + i\<close> are: exactly one, a control change on the configured channel
  with the sampler's step as value, when the step differs from the cached one; none when
  it does not. In the first case the pixel's brightness becomes the sampler's fraction
  and the cached step becomes the step sent; in the second both stay.
\<close>

theorem sendEvents_emits_iff_changed:
  assumes "wf_device st" and "i < n_potis"
    and "getStep (potis st ! i) < n_steps config_V2Potentiometer"
  shows "let st' = sendEvents K False st;
             emitted = drop (length (sent st)) (sent st');
             for_i = filter (\<lambda>p. cc_controller p = Some (GeneralPurpose1 K + of_nat i)) emitted
         in sent st' = sent st @ emitted \<and>
            (if unat (steps st ! i) \<noteq> getStep (potis st ! i) then
               for_i = [setControlChange (config_channel st) (GeneralPurpose1 K + of_nat i)
                          (of_nat (getStep (potis st ! i))) (midi st)] \<and>
               unat (of_nat (getStep (potis st ! i)) :: 8 word) = getStep (potis st ! i) \<and>
               brightness (led st' ! i) = getFraction (potis st ! i) \<and>
               unat (steps st' ! i) = getStep (potis st ! i)
             else
               for_i = [] \<and> led st' ! i = led st ! i \<and> steps st' ! i = steps st ! i)"
proof -
  from assms(2) have i: "i = 0 \<or> i = Suc 0"
    by (auto simp: n_potis_def)
  have byte: "unat (of_nat (getStep (potis st ! i)) :: 8 word) = getStep (potis st ! i)"
    using assms(3) by (rule unat_step_byte)
  have filt: "filter (\<lambda>p. cc_controller p = Some (GeneralPurpose1 K + of_nat i))
        (drop (length (sent st)) (sent (sendEvents K False st))) =
      (if unat (steps st ! i) \<noteq> getStep (potis st ! i)
       then [setControlChange (config_channel st) (GeneralPurpose1 K + of_nat i)
               (of_nat (getStep (potis st ! i))) (midi st)]
       else [])"
    using i by (auto simp add: sent_sendEvents upt_n_potis)
  have app: "sent (sendEvents K False st) =
      sent st @ drop (length (sent st)) (sent (sendEvents K False st))"
    by (simp add: sent_sendEvents)
  show ?thesis
    unfolding Let_def
    using app filt byte steps_sendEvents [OF assms(1,2), of K False]
      led_sendEvents [OF assms(1,2), of K False]
    by simp
qed

theorem sendEvents_emits_iff_changed_witness:
  "filter (\<lambda>p. cc_controller p = Some 16) (sent (sendEvents standard_V2MIDI False busy_device)) =
     [\<lparr>port = 0, msg = ControlChange 3 16 64\<rparr>] \<and>
   brightness (led (sendEvents standard_V2MIDI False busy_device) ! 0) = 1 / 2 \<and>
   unat (steps (sendEvents standard_V2MIDI False busy_device) ! 0) = 64 \<and>
   filter (\<lambda>p. cc_controller p = Some 17) (sent (sendEvents standard_V2MIDI False busy_device)) = [] \<and>
   led (sendEvents standard_V2MIDI False busy_device) ! Suc 0 = pixel_off \<and>
   steps (sendEvents standard_V2MIDI False busy_device) ! Suc 0 = 9"
proof -
  have wf: "wf_device busy_device"
    by (simp add: wf_device_def busy_device_def n_potis_def)
  have i0: "0 < n_potis" and i1: "Suc 0 < n_potis"
    by (simp_all add: n_potis_def)
  have b0: "getStep (potis busy_device ! 0) < n_steps config_V2Potentiometer"
    and b1: "getStep (potis busy_device ! Suc 0) < n_steps config_V2Potentiometer"
    by (simp_all add: busy_device_def getStep_def config_V2Potentiometer_def)
  have f: "sent busy_device = []" "steps busy_device ! 0 = 10" "steps busy_device ! Suc 0 = 9"
    "getStep (potis busy_device ! 0) = 64" "getStep (potis busy_device ! Suc 0) = 9"
    "getFraction (potis busy_device ! 0) = 1 / 2" "led busy_device ! Suc 0 = pixel_off"
    "config_channel busy_device = 3" "midi busy_device = \<lparr>port = 0, msg = Empty\<rparr>"
    "GeneralPurpose1 standard_V2MIDI = 16"
    by (simp_all add: busy_device_def getStep_def getFraction_def empty_packet_def
        standard_V2MIDI_def)
  show ?thesis
    using sendEvents_emits_iff_changed [OF wf i0 b0, of standard_V2MIDI]
      sendEvents_emits_iff_changed [OF wf i1 b1, of standard_V2MIDI]
    by (simp add: Let_def f setControlChange_def)
qed

subsection \<open>Inbound control changes\<close>

text \<open>
  C6. A control change with controller all-sound-off or all-notes-off sends exactly
  \<open>n_potis\<close> packets, the \<open>i\<close>-th a control change for controller
  \<open>GeneralPurpose1 + i\<close> with the step of sampler \<open>i\<close>, whether or not the step
  differs from the cached one.
\<close>

theorem handleControlChange_forced_flush:
  assumes "controller = AllSoundOff K \<or> controller = AllNotesOff K"
    and "\<forall>i<n_potis. getStep (potis st ! i) < n_steps config_V2Potentiometer"
  shows "let st' = handleControlChange K channel controller val st;
             emitted = drop (length (sent st)) (sent st')
         in sent st' = sent st @ emitted \<and>
            length emitted = n_potis \<and>
            (\<forall>i<n_potis.
               emitted ! i = setControlChange (config_channel st) (GeneralPurpose1 K + of_nat i)
                               (of_nat (getStep (potis st ! i))) (midi st) \<and>
               unat (of_nat (getStep (potis st ! i)) :: 8 word) = getStep (potis st ! i))"
proof -
  have h: "handleControlChange K channel controller val st = sendEvents K True st"
    using assms(1) by (auto simp add: handleControlChange_def allNotesOff_def)
  have s: "sent (sendEvents K True st) =
      sent st @ map (\<lambda>i. setControlChange (config_channel st) (GeneralPurpose1 K + of_nat i)
                            (of_nat (getStep (potis st ! i))) (midi st)) [0..<n_potis]"
    by (simp add: sent_sendEvents upt_n_potis)
  have b: "unat (of_nat (getStep (potis st ! i)) :: 8 word) = getStep (potis st ! i)"
    if "i < n_potis" for i
    using assms(2) that by (simp add: unat_step_byte)
  show ?thesis
    unfolding Let_def h s using b by simp
qed

theorem handleControlChange_forced_flush_witness:
  "sent (handleControlChange standard_V2MIDI 0 123 0 busy_device) =
     [\<lparr>port = 0, msg = ControlChange 3 16 64\<rparr>, \<lparr>port = 0, msg = ControlChange 3 17 9\<rparr>]"
proof -
  have c: "(123 :: 8 word) = AllSoundOff standard_V2MIDI \<or> (123 :: 8 word) = AllNotesOff standard_V2MIDI"
    by (simp add: standard_V2MIDI_def)
  have b: "\<forall>i<n_potis. getStep (potis busy_device ! i) < n_steps config_V2Potentiometer"
    by (simp add: n_potis_def busy_device_def getStep_def config_V2Potentiometer_def less_Suc_eq
        numeral_2_eq_2)
  have f: "sent busy_device = []"
    "getStep (potis busy_device ! 0) = 64" "getStep (potis busy_device ! Suc 0) = 9"
    "config_channel busy_device = 3" "midi busy_device = \<lparr>port = 0, msg = Empty\<rparr>"
    "GeneralPurpose1 standard_V2MIDI = 16"
    by (simp_all add: busy_device_def getStep_def empty_packet_def standard_V2MIDI_def)
  let ?s = "sent (handleControlChange standard_V2MIDI 0 123 0 busy_device)"
  have "length ?s = 2 \<and> ?s ! 0 = \<lparr>port = 0, msg = ControlChange 3 16 64\<rparr> \<and>
      ?s ! Suc 0 = \<lparr>port = 0, msg = ControlChange 3 17 9\<rparr>"
    using handleControlChange_forced_flush [OF c b, of 0 0]
    by (simp add: Let_def f setControlChange_def n_potis_def less_Suc_eq numeral_2_eq_2)
  then show ?thesis
    using list_two [of ?s] by (simp add: n_potis_def)
qed

text \<open>
  C10. A control change whose controller is neither all-sound-off nor all-notes-off
  leaves the whole device state as it was; in particular nothing is sent.
\<close>

theorem handleControlChange_other_controller:
  assumes "controller \<noteq> AllSoundOff K" and "controller \<noteq> AllNotesOff K"
  shows "handleControlChange K channel controller val st = st"
  using assms by (simp add: handleControlChange_def)

theorem handleControlChange_other_controller_witness:
  "(7 :: 8 word) \<noteq> AllSoundOff standard_V2MIDI \<and> (7 :: 8 word) \<noteq> AllNotesOff standard_V2MIDI \<and>
   handleControlChange standard_V2MIDI 0 7 100 initial_device = initial_device \<and>
   sent (handleControlChange standard_V2MIDI 0 7 100 initial_device) = []"
  using handleControlChange_other_controller [of 7 standard_V2MIDI 0 100 initial_device]
  by (simp add: standard_V2MIDI_def initial_device_def)

subsection \<open>Inbound notes\<close>







subsection \<open>The poll loop\<close>

lemma fold_measure_channel:
  assumes "length (potis st) = n_potis"
  shows "fold (measure_channel measure_poti env) [0..<n_potis] st =
     st\<lparr>potis := map (\<lambda>i. measure_poti (real_of_int (analogRead env i) / 1023) (potis st ! i))
                   [0..<n_potis]\<rparr>"
proof -
  have two: "potis st = [potis st ! 0, potis st ! 1]"
    using assms by (rule list_two)
  have "(potis st)[0 := a, Suc 0 := b] = [a, b]" for a b
    by (subst two) simp
  then show ?thesis
    by (simp add: upt_n_potis measure_channel_def)
qed

lemma handleLoop_stages:
  assumes "length (potis st) = n_potis"
  shows "handleLoop K measure_poti env st =
     (let sample_due = (10000 < unat (micros env 0 - measure_usec st));
          k = (if sample_due then 2 else 1);
          sampled =
            (if sample_due then
               st\<lparr>potis := map (\<lambda>i. measure_poti (real_of_int (analogRead env i) / 1023)
                                     (potis st ! i)) [0..<n_potis],
                  measure_usec := micros env 1\<rparr>
             else st);
          emit_due = (50000 < unat (micros env k - events_usec st))
      in if emit_due then (sendEvents K False sampled)\<lparr>events_usec := micros env (k + 1)\<rparr>
         else sampled)"
  unfolding handleLoop_def due_word32 fold_measure_channel [OF assms]
  by (simp add: Let_def)

text \<open>
  C5, as the sketch has it. The sampling task runs exactly when the elapsed time
  \<open>micros() - _measure_usec\<close>, computed on 32 bits, is more than 10000 microseconds;
  it feeds each sampler once and records the next reading of the clock. The emission
  task then runs exactly when \<open>micros() - _events_usec\<close> is more than 50000
  microseconds; it makes one emission pass and records the next reading of the clock.
  Neither runs more than once in a turn, however long it is overdue.
\<close>

theorem handleLoop_tasks:
  assumes "length (potis st) = n_potis"
  shows "let st' = handleLoop K measure_poti env st;
             sample_due = (10000 < unat (micros env 0 - measure_usec st));
             k = (if sample_due then 2 else 1);
             sampled =
               (if sample_due then
                  st\<lparr>potis := map (\<lambda>i. measure_poti (real_of_int (analogRead env i) / 1023)
                                        (potis st ! i)) [0..<n_potis],
                     measure_usec := micros env 1\<rparr>
                else st);
             emit_due = (50000 < unat (micros env k - events_usec st))
         in potis st' = potis sampled \<and>
            measure_usec st' = measure_usec sampled \<and>
            (if emit_due then
               st' = (sendEvents K False sampled)\<lparr>events_usec := micros env (k + 1)\<rparr>
             else st' = sampled)"
  unfolding handleLoop_stages [OF assms]
  by (simp add: Let_def)

text \<open>
  A turn in which both tasks are overdue by several periods, and a turn across the
  wrap-around of the clock.
\<close>

theorem handleLoop_tasks_witness:
  "potis (handleLoop standard_V2MIDI follow running_clock busy_device) =
     [\<lparr>p_step = 64, p_fraction = 1\<rparr>, \<lparr>p_step = 9, p_fraction = 0\<rparr>] \<and>
   measure_usec (handleLoop standard_V2MIDI follow running_clock busy_device) = 60001 \<and>
   events_usec (handleLoop standard_V2MIDI follow running_clock busy_device) = 60003 \<and>
   sent (handleLoop standard_V2MIDI follow running_clock busy_device) =
     [\<lparr>port = 0, msg = ControlChange 3 16 64\<rparr>] \<and>
   measure_usec (handleLoop standard_V2MIDI follow (clock_at 0x2000)
     (busy_device\<lparr>measure_usec := 0xFFFFF000\<rparr>)) = 0x2000 \<and>
   events_usec (handleLoop standard_V2MIDI follow (clock_at 0x2000)
     (busy_device\<lparr>measure_usec := 0xFFFFF000\<rparr>)) = 2000"
proof -
  have l: "length (potis busy_device) = n_potis"
    "length (potis (busy_device\<lparr>measure_usec := 0xFFFFF000\<rparr>)) = n_potis"
    by (simp_all add: busy_device_def n_potis_def)
  show ?thesis
    using handleLoop_tasks [OF l(1), of standard_V2MIDI follow running_clock]
      handleLoop_tasks [OF l(2), of standard_V2MIDI follow "clock_at 0x2000"]
    by (simp add: Let_def running_clock_def clock_at_def busy_device_def follow_def
        upt_n_potis sent_sendEvents getStep_def setControlChange_def empty_packet_def
        standard_V2MIDI_def)
qed

text \<open>
  C5 as stated fails at the boundary: with exactly 10000 microseconds elapsed the
  samplers are not fed, and with exactly 50000 microseconds elapsed nothing is sent
  although the step of channel 0 differs from the cached one.
\<close>

theorem handleLoop_at_period_counterexample:
  "unat (micros (clock_at 11000) 0 - measure_usec busy_device) = 10 * 1000 \<and>
   handleLoop standard_V2MIDI follow (clock_at 11000) busy_device = busy_device \<and>
   unat (micros (clock_at 52000) 2 - events_usec busy_device) = 50 * 1000 \<and>
   unat (steps busy_device ! 0) \<noteq> getStep (potis busy_device ! 0) \<and>
   sent (handleLoop standard_V2MIDI follow (clock_at 52000) busy_device) = [] \<and>
   events_usec (handleLoop standard_V2MIDI follow (clock_at 52000) busy_device) = 2000"
  by (simp add: handleLoop_def clock_at_def busy_device_def Let_def getStep_def
      upt_n_potis measure_channel_def follow_def)

subsection \<open>Reset\<close>

text \<open>
  C8. \<^verbatim>\<open>handleReset\<close> zeroes every cached step and the reference of the sampling
  timer, sets the reference of the emission timer to the clock reading, clears the
  packet buffer, resets every sampler, and turns the onboard indicator and the pixels
  off. The configuration and the log of sent packets stay. With the sampling reference
  at zero, the next turn of the loop feeds the samplers as soon as the clock reads more
  than 10000 microseconds, however recent the reset is.
\<close>

theorem handleReset_state:
  assumes "length (potis st) = n_potis"
  shows "let st' = handleReset now st in
     steps st' = replicate n_potis 0 \<and>
     measure_usec st' = 0 \<and>
     events_usec st' = now \<and>
     midi st' = empty_packet \<and>
     potis st' = map reset_poti (potis st) \<and>
     \<not> led_onboard st' \<and>
     led st' = map (\<lambda>_. pixel_off) (led st) \<and>
     config_channel st' = config_channel st \<and>
     sent st' = sent st \<and>
     (\<forall>K measure_poti env. 10000 < unat (micros env 0) \<longrightarrow>
        potis (handleLoop K measure_poti env st') =
          map (\<lambda>i. measure_poti (real_of_int (analogRead env i) / 1023) (reset_poti (potis st ! i)))
            [0..<n_potis] \<and>
        measure_usec (handleLoop K measure_poti env st') = micros env 1)"
proof -
  let ?st' = "handleReset now st"
  have two: "potis st = [potis st ! 0, potis st ! 1]"
    using assms by (rule list_two)
  have m: "map reset_poti (potis st) = [reset_poti (potis st ! 0), reset_poti (potis st ! 1)]"
    by (subst two) simp
  have u: "(potis st)[0 := reset_poti (potis st ! 0), 1 := reset_poti (potis st ! 1)] =
      [reset_poti (potis st ! 0), reset_poti (potis st ! 1)]"
    by (subst two) simp
  have fields: "steps ?st' = replicate n_potis 0" "measure_usec ?st' = 0"
    "events_usec ?st' = now" "midi ?st' = empty_packet"
    "potis ?st' = map reset_poti (potis st)" "\<not> led_onboard ?st'"
    "led ?st' = map (\<lambda>_. pixel_off) (led st)" "config_channel ?st' = config_channel st"
    "sent ?st' = sent st"
    using m u by (simp_all add: handleReset_def Let_def upt_n_potis LED_reset_def)
  have len: "length (potis ?st') = n_potis"
    using assms by (simp add: fields)
  have first: "potis (handleLoop K measure_poti env ?st') =
        map (\<lambda>i. measure_poti (real_of_int (analogRead env i) / 1023) (reset_poti (potis st ! i)))
          [0..<n_potis] \<and>
      measure_usec (handleLoop K measure_poti env ?st') = micros env 1"
    if "10000 < unat (micros env 0)" for K measure_poti env
    using that m
    by (simp add: handleLoop_stages [OF len] fields Let_def upt_n_potis)
  show ?thesis
    unfolding Let_def using fields first by blast
qed

theorem handleReset_state_witness:
  "steps (handleReset 777 busy_device) = [0, 0] \<and>
   measure_usec (handleReset 777 busy_device) = 0 \<and>
   events_usec (handleReset 777 busy_device) = 777 \<and>
   midi (handleReset 777 busy_device) = empty_packet \<and>
   potis (handleReset 777 busy_device) =
     [\<lparr>p_step = 0, p_fraction = 0\<rparr>, \<lparr>p_step = 0, p_fraction = 0\<rparr>] \<and>
   \<not> led_onboard (handleReset 777 busy_device) \<and>
   led (handleReset 777 busy_device) = [pixel_off, pixel_off] \<and>
   potis (handleLoop standard_V2MIDI follow (clock_at 20000) (handleReset 777 busy_device)) =
     [\<lparr>p_step = 0, p_fraction = 1\<rparr>, \<lparr>p_step = 0, p_fraction = 1\<rparr>]"
proof -
  have l: "length (potis busy_device) = n_potis"
    by (simp add: busy_device_def n_potis_def)
  have c: "10000 < unat (micros (clock_at 20000) 0)"
    by (simp add: clock_at_def)
  have a: "analogRead (clock_at 20000) = (\<lambda>i. 1023)"
    by (simp add: clock_at_def)
  have p: "potis busy_device ! 0 = \<lparr>p_step = 64, p_fraction = 1 / 2\<rparr>"
    "potis busy_device ! Suc 0 = \<lparr>p_step = 9, p_fraction = 1 / 4\<rparr>"
    "potis busy_device = [\<lparr>p_step = 64, p_fraction = 1 / 2\<rparr>, \<lparr>p_step = 9, p_fraction = 1 / 4\<rparr>]"
    "led busy_device = [\<lparr>hue = 120, saturation = 1, brightness = 1 / 2\<rparr>, pixel_off]"
    by (simp_all add: busy_device_def)
  show ?thesis
    using handleReset_state [OF l, of 777] c
    by (simp add: Let_def a p upt_n_potis n_potis_def reset_poti_def follow_def numeral_2_eq_2)
qed

end
